theory Spec2Isabelle
  imports Main "HOL-Library.Word" "HOL-Library.Sublist"
begin

section \<open>JavaScript strings and values\<close>

text \<open>
  A JavaScript string is a sequence of UTF-16 code units; \<open>.length\<close> counts code units.
  String literals of the source are ASCII and are written through \<open>lit\<close>.
\<close>

type_synonym js_string = "16 word list"

definition lit :: "string \<Rightarrow> js_string" where
  "lit s = map of_char s"

text \<open>
  The code units that \<open>String.prototype.trim\<close> strips: ECMAScript WhiteSpace and
  LineTerminator.
\<close>

definition isWhiteSpace :: "16 word \<Rightarrow> bool" where
  "isWhiteSpace c \<longleftrightarrow> c \<in> {0x09, 0x0A, 0x0B, 0x0C, 0x0D, 0x20, 0xA0, 0x1680,
      0x2000, 0x2001, 0x2002, 0x2003, 0x2004, 0x2005, 0x2006, 0x2007, 0x2008, 0x2009, 0x200A,
      0x2028, 0x2029, 0x202F, 0x205F, 0x3000, 0xFEFF}"

definition trim :: "js_string \<Rightarrow> js_string" where
  "trim s = rev (dropWhile isWhiteSpace (rev (dropWhile isWhiteSpace s)))"

text \<open>\<open>s.includes(sub)\<close>: \<open>sub\<close> occurs in \<open>s\<close> at some position.\<close>

fun str_includes :: "'a list \<Rightarrow> 'a list \<Rightarrow> bool" where
  "str_includes [] sub = (sub = [])"
| "str_includes (x # xs) sub = (prefix sub (x # xs) \<or> str_includes xs sub)"

text \<open>
  The values a decoded JSON field can hold. A field the object lacks reads as
  \<open>JUndefined\<close>. Numbers matter here only through truthiness and \<open>typeof\<close>; objects and
  arrays are \<open>JObject\<close>.
\<close>

datatype js_value = JUndefined | JNull | JBool bool | JNumber int | JString js_string | JObject

fun truthy :: "js_value \<Rightarrow> bool" where
  "truthy JUndefined = False"
| "truthy JNull = False"
| "truthy (JBool b) = b"
| "truthy (JNumber n) = (n \<noteq> 0)"
| "truthy (JString s) = (s \<noteq> [])"
| "truthy JObject = True"

fun typeof :: "js_value \<Rightarrow> string" where
  "typeof JUndefined = ''undefined''"
| "typeof JNull = ''object''"
| "typeof (JBool b) = ''boolean''"
| "typeof (JNumber n) = ''number''"
| "typeof (JString s) = ''string''"
| "typeof JObject = ''object''"

fun string_of :: "js_value \<Rightarrow> js_string" where
  "string_of (JString s) = s"
| "string_of _ = []"

text \<open>
  The guard \<^verbatim>\<open>!v || typeof v !== 'string' || v.trim().length === 0\<close>, which all three
  generation handlers apply to \<open>prompt\<close> (and the Express handler to \<open>apiKey\<close>).
\<close>

definition blank_or_not_string :: "js_value \<Rightarrow> bool" where
  "blank_or_not_string v \<longleftrightarrow>
     \<not> truthy v \<or> typeof v \<noteq> ''string'' \<or> length (trim (string_of v)) = 0"

section \<open>Errors\<close>

text \<open>The codes of \<open>functions.https.HttpsError\<close>.\<close>

datatype functions_error_code =
    Ok | Cancelled | Unknown | InvalidArgument | DeadlineExceeded | NotFound | AlreadyExists
  | PermissionDenied | ResourceExhausted | FailedPrecondition | Aborted | OutOfRange
  | Unimplemented | Internal | Unavailable | DataLoss | Unauthenticated

text \<open>
  A thrown value: an \<open>HttpsError\<close> with its code and message, or any other error object,
  whose \<open>message\<close> may be undefined.
\<close>

datatype js_error = HttpsError functions_error_code js_string | JsError "js_string option"

fun message :: "js_error \<Rightarrow> js_string option" where
  "message (HttpsError c m) = Some m"
| "message (JsError m) = m"

text \<open>\<^verbatim>\<open>error.message?.includes(tok)\<close>, used as a condition.\<close>

definition message_includes :: "js_error \<Rightarrow> string \<Rightarrow> bool" where
  "message_includes e tok =
     (case message e of None \<Rightarrow> False | Some m \<Rightarrow> str_includes m (lit tok))"

section \<open>The document store, the environment and effects\<close>

record rate_limit =
  count :: int
  lastReset :: int

record usage_log =
  userId :: js_string
  timestamp :: int
  promptLength :: nat
  responseLength :: nat
  model :: string

text \<open>
  The two Firestore collections. \<open>rateLimits\<close> is keyed by user id. \<open>usage_logs\<close> has
  generated document ids: a document is identified by its position in the list, and
  \<open>add\<close> appends. Times are milliseconds since the epoch. Store operations complete;
  a failing store is outside the model.
\<close>

record store =
  rateLimits :: "js_string \<rightharpoonup> rate_limit"
  usage_logs :: "usage_log list"

text \<open>The key the upstream client is built with.\<close>

datatype credential = ServerKey | UserKey js_string

text \<open>
  What a request reads from outside: the clock at \<open>Date.now()\<close> of the rate limiter, the
  store's clock at the log write, the clock at \<open>new Date()\<close> of the response, the upstream
  service (\<open>generateContent\<close>, \<open>result.response\<close> and \<open>response.text()\<close> together: the
  message of the error thrown, or the text), the identity provider, and \<open>NODE_ENV\<close>.
\<close>

record env =
  dateNow :: int
  serverTimestamp :: int
  newDate :: int
  generateContent :: "credential \<Rightarrow> js_string \<Rightarrow> js_string option + js_string"
  verifyIdToken :: "js_value \<Rightarrow> js_string option + js_string"
  development :: bool

text \<open>The effects of a handler on the store and on external services, in program order.\<close>

datatype event =
    RateLimitGet js_string
  | RateLimitSet js_string rate_limit
  | UsageLogAdd usage_log
  | GenerateContent credential js_string
  | VerifyIdToken js_value
  | UsageLogsQuery int
  | BatchDelete "nat list"

record 'r outcome =
  result :: 'r
  store_after :: store
  effects :: "event list"

text \<open>The JSON object of a request; each handler reads the fields it names.\<close>

record payload =
  prompt :: js_value
  apiKey :: js_value
  idToken :: js_value

section \<open>The callable function \<open>generateWithGemini\<close> (index.js)\<close>

text \<open>
  The \<open>data\<close> argument of a call: \<open>null\<close> (a call without an argument),
  \<open>undefined\<close>, or a value whose fields can be read. Reading a field of the first two
  throws a \<open>TypeError\<close>.
\<close>

datatype call_data = DataNull | DataUndefined | Data payload

record call_context =
  auth :: "js_string option"

text \<open>
  The value a call returns. \<open>issued\<close> is the \<open>timestamp\<close> of the source (the clock
  reading that \<open>toISOString\<close> renders); the usage log has a field of that name.
\<close>

record generation_result =
  response :: js_string
  issued :: int

definition oneHour :: int where
  "oneHour = 60 * 60 * 1000"

text \<open>
  The body of the \<open>try\<close> block: what it throws (\<open>Inl\<close>) or returns. After the check
  of the caller's identity, \<^verbatim>\<open>const { prompt } = data\<close> throws a \<open>TypeError\<close> when
  \<open>data\<close> is \<open>null\<close> or \<open>undefined\<close>.
\<close>

definition generateWithGemini_try ::
  "env \<Rightarrow> store \<Rightarrow> call_data \<Rightarrow> call_context \<Rightarrow> (js_error + generation_result) outcome" where
  "generateWithGemini_try e st data ctx =
     (case auth ctx of
        None \<Rightarrow>
          \<lparr>result = Inl (HttpsError Unauthenticated
              (lit ''The function must be called while authenticated.'')),
           store_after = st, effects = []\<rparr>
      | Some uid \<Rightarrow>
         (case data of
            DataNull \<Rightarrow>
              \<lparr>result = Inl (JsError (Some
                  (lit ''Cannot destructure property 'prompt' of 'data' as it is null.''))),
               store_after = st, effects = []\<rparr>
          | DataUndefined \<Rightarrow>
              \<lparr>result = Inl (JsError (Some
                  (lit ''Cannot destructure property 'prompt' of 'data' as it is undefined.''))),
               store_after = st, effects = []\<rparr>
          | Data obj \<Rightarrow>
          if blank_or_not_string (prompt obj) then
            \<lparr>result = Inl (HttpsError InvalidArgument
                (lit ''Prompt is required and must be a non-empty string.'')),
             store_after = st, effects = []\<rparr>
          else if length (string_of (prompt obj)) > 8000 then
            \<lparr>result = Inl (HttpsError InvalidArgument
                (lit ''Prompt is too long. Maximum 8000 characters allowed.'')),
             store_after = st, effects = []\<rparr>
          else
            let p = string_of (prompt obj);
                rateLimitDoc = rateLimits st uid;
                now = dateNow e
            in
              if (case rateLimitDoc of None \<Rightarrow> False
                  | Some d \<Rightarrow> now - lastReset d < oneHour \<and> count d \<ge> 20) then
                \<lparr>result = Inl (HttpsError ResourceExhausted
                    (lit ''Rate limit exceeded. Try again later.'')),
                 store_after = st, effects = [RateLimitGet uid]\<rparr>
              else
                (case generateContent e ServerKey p of
                   Inl m \<Rightarrow>
                     \<lparr>result = Inl (JsError m), store_after = st,
                      effects = [RateLimitGet uid, GenerateContent ServerKey p]\<rparr>
                 | Inr text \<Rightarrow>
                     let currentCount =
                           (case rateLimitDoc of None \<Rightarrow> 1
                            | Some d \<Rightarrow> if now - lastReset d < oneHour then count d + 1 else 1);
                         doc = \<lparr>count = currentCount,
                                lastReset =
                                  (case rateLimitDoc of None \<Rightarrow> now
                                   | Some d \<Rightarrow>
                                       if now - lastReset d < oneHour then lastReset d else now)\<rparr>;
                         entry = \<lparr>userId = uid, timestamp = serverTimestamp e,
                                  promptLength = length p, responseLength = length text,
                                  model = ''gemini-pro''\<rparr>
                     in
                       \<lparr>result = Inr \<lparr>response = text, issued = newDate e\<rparr>,
                        store_after = st\<lparr>rateLimits := (rateLimits st)(uid \<mapsto> doc),
                                         usage_logs := usage_logs st @ [entry]\<rparr>,
                        effects = [RateLimitGet uid, GenerateContent ServerKey p,
                                   RateLimitSet uid doc, UsageLogAdd entry]\<rparr>)))"

text \<open>The \<open>catch\<close> block: the error the function finally throws.\<close>

definition generateWithGemini_catch :: "js_error \<Rightarrow> js_error" where
  "generateWithGemini_catch err =
     (if message_includes err ''API_KEY_INVALID'' then
        HttpsError Internal (lit ''AI service configuration error.'')
      else if message_includes err ''QUOTA_EXCEEDED'' then
        HttpsError ResourceExhausted (lit ''AI service quota exceeded. Please try again later.'')
      else if message_includes err ''SAFETY'' then
        HttpsError InvalidArgument (lit ''Content was blocked due to safety policies.'')
      else (case err of
              HttpsError c m \<Rightarrow> err
            | JsError m \<Rightarrow> HttpsError Internal (lit ''Failed to generate content.'')))"

definition generateWithGemini ::
  "env \<Rightarrow> store \<Rightarrow> call_data \<Rightarrow> call_context \<Rightarrow> (js_error + generation_result) outcome" where
  "generateWithGemini e st data ctx =
     (let out = generateWithGemini_try e st data ctx
      in case result out of
           Inl err \<Rightarrow> out\<lparr>result := Inl (generateWithGemini_catch err)\<rparr>
         | Inr r \<Rightarrow> out)"



section \<open>The HTTP function \<open>generateWithGeminiHttp\<close> (index.js)\<close>

text \<open>
  A request with its method (\<open>req.method\<close>), the address it comes from (\<open>req.ip\<close>) and
  its parsed JSON body. Response headers are not modelled.
\<close>

record http_request =
  req_method :: string
  ip :: js_string
  body :: payload

datatype http_body =
    Send js_string
  | ErrorJson js_string "js_string option"
  | GenerationJson js_string int
  | HealthJson js_string int js_string

record http_response =
  status :: nat
  sent :: http_body

definition generateWithGeminiHttp :: "env \<Rightarrow> store \<Rightarrow> http_request \<Rightarrow> http_response outcome" where
  "generateWithGeminiHttp e st req =
     (if req_method req = ''OPTIONS'' then
        \<lparr>result = \<lparr>status = 204, sent = Send []\<rparr>, store_after = st, effects = []\<rparr>
      else if req_method req \<noteq> ''POST'' then
        \<lparr>result = \<lparr>status = 405, sent = ErrorJson (lit ''Method not allowed'') None\<rparr>,
         store_after = st, effects = []\<rparr>
      else
        (case verifyIdToken e (idToken (body req)) of
           Inl m \<Rightarrow>
             \<lparr>result = \<lparr>status = 401, sent = ErrorJson (lit ''Unauthorized'') None\<rparr>,
              store_after = st, effects = [VerifyIdToken (idToken (body req))]\<rparr>
         | Inr decodedToken \<Rightarrow>
             if blank_or_not_string (prompt (body req)) then
               \<lparr>result = \<lparr>status = 400, sent = ErrorJson (lit ''Invalid prompt'') None\<rparr>,
                store_after = st, effects = [VerifyIdToken (idToken (body req))]\<rparr>
             else
               (case generateContent e ServerKey (string_of (prompt (body req))) of
                  Inl m \<Rightarrow>
                    \<lparr>result = \<lparr>status = 500,
                                sent = ErrorJson (lit ''Internal server error'') None\<rparr>,
                     store_after = st,
                     effects = [VerifyIdToken (idToken (body req)),
                                GenerateContent ServerKey (string_of (prompt (body req)))]\<rparr>
                | Inr text \<Rightarrow>
                    \<lparr>result = \<lparr>status = 200, sent = GenerationJson text (newDate e)\<rparr>,
                     store_after = st,
                     effects = [VerifyIdToken (idToken (body req)),
                                GenerateContent ServerKey (string_of (prompt (body req)))]\<rparr>)))"

section \<open>The scheduled function \<open>cleanupLogs\<close> (index.js)\<close>

text \<open>
  \<open>setDate(getDate() - 30)\<close> on the current date: thirty days earlier (the runtime's
  time zone is UTC, which has no clock shifts).
\<close>

definition thirtyDaysAgo :: "int \<Rightarrow> int" where
  "thirtyDaysAgo now = now - 30 * (24 * 60 * 60 * 1000)"

text \<open>
  The query \<^verbatim>\<open>where('timestamp', '<', cutoff).limit(500)\<close>: the matching documents, which
  the store returns in the order of the compared field, cut at 500.
\<close>

definition oldLogs :: "int \<Rightarrow> usage_log list \<Rightarrow> nat list" where
  "oldLogs cutoff logs =
     take 500 (sort_key (\<lambda>i. timestamp (logs ! i))
       (filter (\<lambda>i. timestamp (logs ! i) < cutoff) [0..<length logs]))"

text \<open>Committing a batch of deletes removes the documents referred to.\<close>

definition batch_delete :: "nat list \<Rightarrow> usage_log list \<Rightarrow> usage_log list" where
  "batch_delete refs logs = nths logs {i. i \<notin> set refs}"

definition cleanupLogs :: "env \<Rightarrow> store \<Rightarrow> unit outcome" where
  "cleanupLogs e st =
     (let cutoff = thirtyDaysAgo (newDate e);
          docs = oldLogs cutoff (usage_logs st)
      in \<lparr>result = (),
          store_after = st\<lparr>usage_logs := batch_delete docs (usage_logs st)\<rparr>,
          effects = [UsageLogsQuery cutoff, BatchDelete docs]\<rparr>)"

section \<open>The Express server: \<open>/health\<close> and \<open>/generate\<close>\<close>










text \<open>The \<open>catch\<close> block of \<open>/generate\<close>.\<close>

definition generate_catch :: "env \<Rightarrow> js_error \<Rightarrow> http_response" where
  "generate_catch e err =
     (if message_includes err ''API_KEY_INVALID'' \<or> message_includes err ''invalid API key'' then
        \<lparr>status = 401, sent = ErrorJson (lit ''Invalid API key provided'') None\<rparr>
      else if message_includes err ''quota'' \<or> message_includes err ''QUOTA_EXCEEDED'' then
        \<lparr>status = 429, sent = ErrorJson (lit ''API quota exceeded'') None\<rparr>
      else if message_includes err ''SAFETY'' then
        \<lparr>status = 400, sent = ErrorJson (lit ''Content was blocked due to safety concerns'') None\<rparr>
      else
        \<lparr>status = 500,
         sent = ErrorJson (lit ''Failed to generate content'')
                  (if development e then message err else Some (lit ''Internal server error''))\<rparr>)"

definition generate :: "env \<Rightarrow> http_request \<Rightarrow> http_response \<times> event list" where
  "generate e req =
     (if blank_or_not_string (apiKey (body req)) then
        (\<lparr>status = 400,
          sent = ErrorJson (lit ''API key is required and must be a non-empty string'') None\<rparr>, [])
      else if blank_or_not_string (prompt (body req)) then
        (\<lparr>status = 400,
          sent = ErrorJson (lit ''Prompt is required and must be a non-empty string'') None\<rparr>, [])
      else
        let key = UserKey (string_of (apiKey (body req)));
            p = string_of (prompt (body req))
        in case generateContent e key p of
             Inl m \<Rightarrow> (generate_catch e (JsError m), [GenerateContent key p])
           | Inr text \<Rightarrow>
               if text = [] \<or> length (trim text) = 0 then
                 (\<lparr>status = 500, sent = ErrorJson (lit ''No content was generated'') None\<rparr>,
                  [GenerateContent key p])
               else
                 (\<lparr>status = 200, sent = GenerationJson text (newDate e)\<rparr>,
                  [GenerateContent key p]))"

section \<open>Predicates of the statements\<close>

text \<open>
  The call carries the identity \<open>uid\<close> and its prompt passes both checks of the callable.
\<close>

definition passes_validation :: "js_string \<Rightarrow> payload \<Rightarrow> call_context \<Rightarrow> bool" where
  "passes_validation uid data ctx \<longleftrightarrow>
     auth ctx = Some uid \<and> \<not> blank_or_not_string (prompt data)
     \<and> length (string_of (prompt data)) \<le> 8000"






text \<open>
  The code of the \<open>HttpsError\<close> a call threw, if it threw one.
\<close>

fun thrown_code :: "js_error + 'a \<Rightarrow> functions_error_code option" where
  "thrown_code (Inl (HttpsError c m)) = Some c"
| "thrown_code (Inl (JsError m)) = None"
| "thrown_code (Inr r) = None"

text \<open>
  The entry is older than the cutoff of a sweep that runs in \<open>e\<close>.
\<close>

definition expired :: "env \<Rightarrow> usage_log \<Rightarrow> bool" where
  "expired e entry \<longleftrightarrow> timestamp entry < thirtyDaysAgo (newDate e)"

section \<open>Sample values\<close>

definition alice :: js_string where
  "alice = lit ''alice''"

definition by_alice :: call_context where
  "by_alice = \<lparr>auth = Some alice\<rparr>"

definition ask :: "js_value \<Rightarrow> payload" where
  "ask v = \<lparr>prompt = v, apiKey = JString (lit ''key''), idToken = JString (lit ''token'')\<rparr>"

definition world :: "int \<Rightarrow> js_string option + js_string \<Rightarrow> env" where
  "world t reply = \<lparr>dateNow = t, serverTimestamp = t + 1, newDate = t + 2,
     generateContent = (\<lambda>k p. reply), verifyIdToken = (\<lambda>tok. Inr alice),
     development = False\<rparr>"

definition empty_store :: store where
  "empty_store = \<lparr>rateLimits = Map.empty, usage_logs = []\<rparr>"

definition hello :: js_value where
  "hello = JString (lit ''Hello'')"

definition hi :: "js_string option + js_string" where
  "hi = Inr (lit ''Hi'')"

definition boom :: "js_string option + js_string" where
  "boom = Inl (Some (lit ''boom''))"

definition key_invalid :: "js_string option + js_string" where
  "key_invalid = Inl (Some (lit ''[400 Bad Request] API_KEY_INVALID''))"

text \<open>
  A store in which \<open>alice\<close> has a rate-limit record; a call of \<open>alice\<close> at a given
  time; a POST request; a GET request; a prompt of 8001 code units; a store of usage
  logs with given timestamps.
\<close>

definition record_of :: "int \<Rightarrow> int \<Rightarrow> store" where
  "record_of c t = \<lparr>rateLimits = [alice \<mapsto> \<lparr>count = c, lastReset = t\<rparr>], usage_logs = []\<rparr>"


definition post :: "js_value \<Rightarrow> http_request" where
  "post v = \<lparr>req_method = ''POST'', ip = lit ''203.0.113.7'', body = ask v\<rparr>"


definition long_prompt :: js_value where
  "long_prompt = JString (replicate 8001 0x61)"

definition log_at :: "int \<Rightarrow> usage_log" where
  "log_at t = \<lparr>userId = alice, timestamp = t, promptLength = 5, responseLength = 2,
     model = ''gemini-pro''\<rparr>"

definition logged :: "int list \<Rightarrow> store" where
  "logged ts = \<lparr>rateLimits = [alice \<mapsto> \<lparr>count = 3, lastReset = 0\<rparr>], usage_logs = map log_at ts\<rparr>"

section \<open>Basic facts\<close>

lemma trim_empty_iff: "trim s = [] \<longleftrightarrow> (\<forall>c \<in> set s. isWhiteSpace c)"
proof
  assume "trim s = []"
  then have all: "\<forall>c \<in> set (dropWhile isWhiteSpace s). isWhiteSpace c"
    by (simp add: trim_def)
  have "dropWhile isWhiteSpace s = []"
  proof (cases "dropWhile isWhiteSpace s")
    case Nil
    then show ?thesis .
  next
    case (Cons c cs)
    then have "\<not> isWhiteSpace c"
      using hd_dropWhile [of isWhiteSpace s] by simp
    with all Cons show ?thesis by simp
  qed
  then show "\<forall>c \<in> set s. isWhiteSpace c"
    by simp
next
  assume "\<forall>c \<in> set s. isWhiteSpace c"
  then have "dropWhile isWhiteSpace s = []"
    by simp
  then show "trim s = []"
    by (simp only: trim_def rev.simps dropWhile.simps)
qed

lemma blank_or_not_string_iff:
  "blank_or_not_string v \<longleftrightarrow> (\<forall>s. v \<noteq> JString s) \<or> (\<exists>s. v = JString s \<and> trim s = [])"
  by (cases v) (auto simp: blank_or_not_string_def trim_def)

lemma catch_unauthenticated:
  "generateWithGemini_catch (HttpsError Unauthenticated
      (lit ''The function must be called while authenticated.'')) =
   HttpsError Unauthenticated (lit ''The function must be called while authenticated.'')"
  by (simp add: generateWithGemini_catch_def message_includes_def lit_def)

lemma catch_prompt_required:
  "generateWithGemini_catch (HttpsError InvalidArgument
      (lit ''Prompt is required and must be a non-empty string.'')) =
   HttpsError InvalidArgument (lit ''Prompt is required and must be a non-empty string.'')"
  by (simp add: generateWithGemini_catch_def message_includes_def lit_def)

lemma catch_prompt_too_long:
  "generateWithGemini_catch (HttpsError InvalidArgument
      (lit ''Prompt is too long. Maximum 8000 characters allowed.'')) =
   HttpsError InvalidArgument (lit ''Prompt is too long. Maximum 8000 characters allowed.'')"
  by (simp add: generateWithGemini_catch_def message_includes_def lit_def)

lemma catch_rate_limit:
  "generateWithGemini_catch (HttpsError ResourceExhausted
      (lit ''Rate limit exceeded. Try again later.'')) =
   HttpsError ResourceExhausted (lit ''Rate limit exceeded. Try again later.'')"
  by (simp add: generateWithGemini_catch_def message_includes_def lit_def)

lemmas catch_thrown = catch_unauthenticated catch_prompt_required catch_prompt_too_long
  catch_rate_limit

section \<open>The callable, case by case\<close>

lemma passes_validation_hello: "passes_validation alice (ask hello) by_alice"
  by (simp add: passes_validation_def ask_def hello_def by_alice_def blank_or_not_string_def
      trim_def lit_def isWhiteSpace_def)

lemma key_invalid_mentions:
  "message_includes (JsError (Some (lit ''[400 Bad Request] API_KEY_INVALID''))) ''API_KEY_INVALID''"
  by (simp add: message_includes_def lit_def)


lemma callable_upstream_failed:
  assumes "passes_validation uid data ctx"
    "\<forall>d. rateLimits st uid = Some d \<longrightarrow> \<not> (dateNow e - lastReset d < oneHour \<and> count d \<ge> 20)"
    "generateContent e ServerKey (string_of (prompt data)) = Inl m"
  shows "generateWithGemini e st (Data data) ctx =
     \<lparr>result = Inl (generateWithGemini_catch (JsError m)), store_after = st,
      effects = [RateLimitGet uid, GenerateContent ServerKey (string_of (prompt data))]\<rparr>"
  using assms
  by (auto simp: passes_validation_def generateWithGemini_def generateWithGemini_try_def
      Let_def split: option.splits)

lemma callable_succeeded:
  assumes "passes_validation uid data ctx"
    "\<forall>d. rateLimits st uid = Some d \<longrightarrow> \<not> (dateNow e - lastReset d < oneHour \<and> count d \<ge> 20)"
    "generateContent e ServerKey (string_of (prompt data)) = Inr answer"
  shows "\<exists>doc entry. generateWithGemini e st (Data data) ctx =
     \<lparr>result = Inr \<lparr>response = answer, issued = newDate e\<rparr>,
      store_after = st\<lparr>rateLimits := (rateLimits st)(uid \<mapsto> doc),
                        usage_logs := usage_logs st @ [entry]\<rparr>,
      effects = [RateLimitGet uid, GenerateContent ServerKey (string_of (prompt data)),
                 RateLimitSet uid doc, UsageLogAdd entry]\<rparr>
     \<and> doc = (case rateLimits st uid of
                None \<Rightarrow> \<lparr>count = 1, lastReset = dateNow e\<rparr>
              | Some d \<Rightarrow> if dateNow e - lastReset d < oneHour
                          then \<lparr>count = count d + 1, lastReset = lastReset d\<rparr>
                          else \<lparr>count = 1, lastReset = dateNow e\<rparr>)
     \<and> entry = \<lparr>userId = uid, timestamp = serverTimestamp e,
                 promptLength = length (string_of (prompt data)),
                 responseLength = length answer, model = ''gemini-pro''\<rparr>"
  using assms
  by (auto simp: passes_validation_def generateWithGemini_def generateWithGemini_try_def
      Let_def split: option.splits)



text \<open>
  A call without an object for \<open>data\<close> ends in the generic branch of the \<open>catch\<close> block.
\<close>

lemma callable_no_object:
  assumes "auth ctx = Some uid" "data = DataNull \<or> data = DataUndefined"
  shows "generateWithGemini e st data ctx =
     \<lparr>result = Inl (HttpsError Internal (lit ''Failed to generate content.'')),
      store_after = st, effects = []\<rparr>"
proof -
  have "generateWithGemini_catch (JsError (Some
      (lit ''Cannot destructure property 'prompt' of 'data' as it is null.''))) =
      HttpsError Internal (lit ''Failed to generate content.'')"
    by (simp add: generateWithGemini_catch_def message_includes_def)
      (simp add: lit_def)
  moreover have "generateWithGemini_catch (JsError (Some
      (lit ''Cannot destructure property 'prompt' of 'data' as it is undefined.''))) =
      HttpsError Internal (lit ''Failed to generate content.'')"
    by (simp add: generateWithGemini_catch_def message_includes_def)
      (simp add: lit_def)
  ultimately show ?thesis
    using assms by (auto simp: generateWithGemini_def generateWithGemini_try_def)
qed

lemma catch_upstream_code:
  "thrown_code (Inl (generateWithGemini_catch (JsError m))) =
     Some (if message_includes (JsError m) ''API_KEY_INVALID'' then Internal
           else if message_includes (JsError m) ''QUOTA_EXCEEDED'' then ResourceExhausted
           else if message_includes (JsError m) ''SAFETY'' then InvalidArgument
           else Internal)"
  by (simp add: generateWithGemini_catch_def)


lemma callable_prompt_required_iff:
  assumes "auth ctx = Some uid"
  shows "generateWithGemini e st (Data data) ctx =
       \<lparr>result = Inl (HttpsError InvalidArgument
           (lit ''Prompt is required and must be a non-empty string.'')),
        store_after = st, effects = []\<rparr>
     \<longleftrightarrow> blank_or_not_string (prompt data)"
proof
  assume "blank_or_not_string (prompt data)"
  with assms show "generateWithGemini e st (Data data) ctx =
       \<lparr>result = Inl (HttpsError InvalidArgument
           (lit ''Prompt is required and must be a non-empty string.'')),
        store_after = st, effects = []\<rparr>"
    by (simp add: generateWithGemini_def generateWithGemini_try_def catch_thrown)
next
  assume out: "generateWithGemini e st (Data data) ctx =
       \<lparr>result = Inl (HttpsError InvalidArgument
           (lit ''Prompt is required and must be a non-empty string.'')),
        store_after = st, effects = []\<rparr>"
  show "blank_or_not_string (prompt data)"
  proof (rule ccontr)
    assume valid: "\<not> blank_or_not_string (prompt data)"
    show False
    proof (cases "length (string_of (prompt data)) > 8000")
      case True
      with assms valid have "result (generateWithGemini e st (Data data) ctx) =
          Inl (HttpsError InvalidArgument
            (lit ''Prompt is too long. Maximum 8000 characters allowed.''))"
        by (simp add: generateWithGemini_def generateWithGemini_try_def catch_thrown)
      with out show False
        by (simp add: lit_def)
    next
      case False
      with assms valid
      have "effects (generateWithGemini e st (Data data) ctx) \<noteq> []"
        by (simp add: generateWithGemini_def generateWithGemini_try_def Let_def
            split: sum.splits)
      with out show False by simp
    qed
  qed
qed

section \<open>Calls in sequence\<close>





section \<open>The Express handler, case by case\<close>

lemma generate_upstream_failed:
  assumes "\<not> blank_or_not_string (apiKey (body req))" "\<not> blank_or_not_string (prompt (body req))"
    and "generateContent e (UserKey (string_of (apiKey (body req))))
           (string_of (prompt (body req))) = Inl m"
  shows "generate e req =
     (generate_catch e (JsError m),
      [GenerateContent (UserKey (string_of (apiKey (body req)))) (string_of (prompt (body req)))])"
  using assms by (simp add: generate_def Let_def)



text \<open>
  The Express handler does check the generated text: a 200 response carries a text that
  is not blank, and a blank text is answered 500.
\<close>

lemma generate_success_nonblank:
  assumes "status (fst (generate e req)) = 200"
  shows "\<exists>answer. sent (fst (generate e req)) = GenerationJson answer (newDate e)
           \<and> trim answer \<noteq> []"
  using assms
  by (auto simp: generate_def generate_catch_def Let_def split: if_splits sum.splits)

lemma generate_empty_text:
  assumes "\<not> blank_or_not_string (apiKey (body req))" "\<not> blank_or_not_string (prompt (body req))"
    and "generateContent e (UserKey (string_of (apiKey (body req))))
           (string_of (prompt (body req))) = Inr answer"
    and "trim answer = []"
  shows "fst (generate e req) =
     \<lparr>status = 500, sent = ErrorJson (lit ''No content was generated'') None\<rparr>"
  using assms by (simp add: generate_def Let_def)

section \<open>The documents a sweep deletes\<close>

lemma oldLogs_set:
  "set (oldLogs cutoff logs) \<subseteq> {i. i < length logs \<and> timestamp (logs ! i) < cutoff}"
proof -
  have "set (oldLogs cutoff logs) \<subseteq>
      set (sort_key (\<lambda>i. timestamp (logs ! i))
        (filter (\<lambda>i. timestamp (logs ! i) < cutoff) [0..<length logs]))"
    unfolding oldLogs_def by (rule set_take_subset)
  then show ?thesis by auto
qed

lemma oldLogs_distinct: "distinct (oldLogs cutoff logs)"
  by (simp add: oldLogs_def distinct_take)

lemma oldLogs_length: "length (oldLogs cutoff logs) \<le> 500"
  by (simp add: oldLogs_def)

lemma oldLogs_count:
  "length (oldLogs cutoff logs) = min 500 (length (filter (\<lambda>entry. timestamp entry < cutoff) logs))"
proof -
  have "length (filter (\<lambda>i. timestamp (logs ! i) < cutoff) [0..<length logs]) =
      card {i. i < length logs \<and> timestamp (logs ! i) < cutoff}"
    by (simp add: length_filter_conv_card cong: conj_cong)
  also have "\<dots> = length (filter (\<lambda>entry. timestamp entry < cutoff) logs)"
    by (simp add: length_filter_conv_card)
  finally show ?thesis
    by (simp add: oldLogs_def min.commute)
qed

lemma filter_nths_keep:
  assumes "\<forall>i < length xs. Q (xs ! i) \<longrightarrow> i \<in> I"
  shows "filter Q (nths xs I) = filter Q xs"
proof -
  have "filter Q (nths xs I) =
      map fst (filter (\<lambda>p. Q (fst p) \<and> snd p \<in> I) (zip xs [0..<length xs]))"
    by (simp add: nths_def filter_map comp_def conj_commute)
  also have "\<dots> = map fst (filter (\<lambda>p. Q (fst p)) (zip xs [0..<length xs]))"
  proof -
    have "filter (\<lambda>p. Q (fst p) \<and> snd p \<in> I) (zip xs [0..<length xs]) =
        filter (\<lambda>p. Q (fst p)) (zip xs [0..<length xs])"
      using assms by (intro filter_cong refl) (auto simp: set_zip)
    then show ?thesis by simp
  qed
  also have "\<dots> = filter Q xs"
  proof -
    have "filter Q (map fst (zip xs [0..<length xs])) =
        map fst (filter (Q \<circ> fst) (zip xs [0..<length xs]))"
      by (rule filter_map)
    then show ?thesis by (simp add: comp_def)
  qed
  finally show ?thesis .
qed

lemma length_nths_removed:
  assumes "distinct refs" "set refs \<subseteq> {i. i < length xs}"
  shows "length (nths xs {i. i \<notin> set refs}) + length refs = length xs"
proof -
  have "length (nths xs {i. i \<notin> set refs}) = card ({i. i < length xs} - set refs)"
    by (simp add: length_nths set_diff_eq)
  also have "\<dots> = card {i. i < length xs} - card (set refs)"
    using assms(2) by (simp add: card_Diff_subset)
  also have "\<dots> = length xs - length refs"
    using assms(1) by (simp add: distinct_card)
  finally have "length (nths xs {i. i \<notin> set refs}) = length xs - length refs" .
  moreover have "length refs \<le> length xs"
  proof -
    have "card (set refs) \<le> card {i. i < length xs}"
      using assms(2) by (intro card_mono) auto
    with assms(1) show ?thesis by (simp add: distinct_card)
  qed
  ultimately show ?thesis by simp
qed

text \<open>
  A sweep deletes the expired entries, up to 500 of them.
\<close>

lemma cleanupLogs_count:
  "length (usage_logs (store_after (cleanupLogs e st))) =
     length (usage_logs st) - min 500 (length (filter (expired e) (usage_logs st)))"
proof -
  let ?logs = "usage_logs st"
  let ?refs = "oldLogs (thirtyDaysAgo (newDate e)) ?logs"
  have "length (nths ?logs {i. i \<notin> set ?refs}) + length ?refs = length ?logs"
    using oldLogs_set [of "thirtyDaysAgo (newDate e)" ?logs]
    by (intro length_nths_removed oldLogs_distinct) auto
  moreover have "length ?refs = min 500 (length (filter (expired e) ?logs))"
    by (simp add: oldLogs_count expired_def [abs_def])
  ultimately show ?thesis
    by (simp add: cleanupLogs_def Let_def batch_delete_def)
qed

lemma cleanupLogs_example:
  "store_after (cleanupLogs (world 3000000000 hi) (logged [5, 2999999999, 7])) =
     logged [2999999999]"
  by (simp add: cleanupLogs_def Let_def batch_delete_def oldLogs_def thirtyDaysAgo_def
      world_def logged_def log_at_def nths_def upt_rec)

section \<open>The health route behind the limiter\<close>







section \<open>Upstream failures (C1)\<close>

text \<open>
  Claim C1, as amended. When the upstream call throws, the Express handler \<open>/generate\<close>
  answers 401 (unauthenticated) for a message containing \<open>API_KEY_INVALID\<close> or
  \<open>invalid API key\<close>, otherwise 429 (resource exhausted) for one containing \<open>quota\<close>
  or \<open>QUOTA_EXCEEDED\<close>, otherwise 400 (invalid argument) for one containing
  \<open>SAFETY\<close>, and 500 (internal) for any other failure, a missing message included.
  The callable \<open>generateWithGemini\<close> throws \<open>internal\<close> for a message containing
  \<open>API_KEY_INVALID\<close> (the key is the server's own: a configuration error), otherwise
  \<open>resource-exhausted\<close> for \<open>QUOTA_EXCEEDED\<close>, otherwise \<open>invalid-argument\<close> for
  \<open>SAFETY\<close>, and \<open>internal\<close> for any other failure.
\<close>

theorem C1_failure_mapping:
  "(\<not> blank_or_not_string (apiKey (body req)) \<and> \<not> blank_or_not_string (prompt (body req))
      \<and> generateContent e (UserKey (string_of (apiKey (body req))))
            (string_of (prompt (body req))) = Inl m \<longrightarrow>
      status (fst (generate e req)) =
        (if message_includes (JsError m) ''API_KEY_INVALID''
            \<or> message_includes (JsError m) ''invalid API key'' then 401
         else if message_includes (JsError m) ''quota''
            \<or> message_includes (JsError m) ''QUOTA_EXCEEDED'' then 429
         else if message_includes (JsError m) ''SAFETY'' then 400
         else 500))
   \<and> (passes_validation uid data ctx
      \<and> (\<forall>d. rateLimits st uid = Some d \<longrightarrow>
             \<not> (dateNow e - lastReset d < oneHour \<and> count d \<ge> 20))
      \<and> generateContent e ServerKey (string_of (prompt data)) = Inl m \<longrightarrow>
      thrown_code (result (generateWithGemini e st (Data data) ctx)) =
        Some (if message_includes (JsError m) ''API_KEY_INVALID'' then Internal
              else if message_includes (JsError m) ''QUOTA_EXCEEDED'' then ResourceExhausted
              else if message_includes (JsError m) ''SAFETY'' then InvalidArgument
              else Internal))"
proof (intro conjI impI)
  assume "\<not> blank_or_not_string (apiKey (body req)) \<and> \<not> blank_or_not_string (prompt (body req))
      \<and> generateContent e (UserKey (string_of (apiKey (body req))))
            (string_of (prompt (body req))) = Inl m"
  then have "generate e req =
     (generate_catch e (JsError m),
      [GenerateContent (UserKey (string_of (apiKey (body req)))) (string_of (prompt (body req)))])"
    by (simp add: generate_upstream_failed)
  then show "status (fst (generate e req)) =
        (if message_includes (JsError m) ''API_KEY_INVALID''
            \<or> message_includes (JsError m) ''invalid API key'' then 401
         else if message_includes (JsError m) ''quota''
            \<or> message_includes (JsError m) ''QUOTA_EXCEEDED'' then 429
         else if message_includes (JsError m) ''SAFETY'' then 400
         else 500)"
    by (simp add: generate_catch_def)
next
  assume "passes_validation uid data ctx
      \<and> (\<forall>d. rateLimits st uid = Some d \<longrightarrow>
             \<not> (dateNow e - lastReset d < oneHour \<and> count d \<ge> 20))
      \<and> generateContent e ServerKey (string_of (prompt data)) = Inl m"
  then have "result (generateWithGemini e st (Data data) ctx) = Inl (generateWithGemini_catch (JsError m))"
    using callable_upstream_failed [of uid data ctx st e m] by simp
  then show "thrown_code (result (generateWithGemini e st (Data data) ctx)) =
        Some (if message_includes (JsError m) ''API_KEY_INVALID'' then Internal
              else if message_includes (JsError m) ''QUOTA_EXCEEDED'' then ResourceExhausted
              else if message_includes (JsError m) ''SAFETY'' then InvalidArgument
              else Internal)"
    by (simp only: catch_upstream_code)
qed

text \<open>
  An upstream failure whose message contains \<open>API_KEY_INVALID\<close>, on both handlers.
\<close>

theorem C1_failure_mapping_witness:
  "status (fst (generate (world 1000 key_invalid) (post hello))) = 401
   \<and> thrown_code (result (generateWithGemini (world 1000 key_invalid) empty_store (Data (ask hello))
        by_alice)) = Some Internal"
  using C1_failure_mapping [where req = "post hello" and e = "world 1000 key_invalid"
      and m = "Some (lit ''[400 Bad Request] API_KEY_INVALID'')" and uid = alice
      and data = "ask hello" and ctx = by_alice and st = empty_store]
    passes_validation_hello key_invalid_mentions
  by (simp add: post_def ask_def hello_def world_def key_invalid_def empty_store_def
      blank_or_not_string_def trim_def lit_def isWhiteSpace_def)

text \<open>
  Claim C1 as stated fails on the callable: a call of \<open>alice\<close> whose upstream call
  fails with \<open>API_KEY_INVALID\<close> in the message throws \<open>internal\<close>, not
  \<open>unauthenticated\<close>.
\<close>

theorem C1_invalid_key_counterexample:
  "generateWithGemini (world 1000 key_invalid) empty_store (Data (ask hello)) by_alice =
     \<lparr>result = Inl (HttpsError Internal (lit ''AI service configuration error.'')),
      store_after = empty_store,
      effects = [RateLimitGet alice, GenerateContent ServerKey (lit ''Hello'')]\<rparr>"
  using callable_upstream_failed [OF passes_validation_hello, of empty_store
      "world 1000 key_invalid" "Some (lit ''[400 Bad Request] API_KEY_INVALID'')"]
    key_invalid_mentions
  by (simp add: world_def key_invalid_def empty_store_def ask_def hello_def
      generateWithGemini_catch_def)

section \<open>The rate limit (C2, C3)\<close>




text \<open>
  Claim C3, as amended. When the caller's record is at least one hour old, a valid call
  is let through whatever the stored count: the record is read and the upstream service
  is called. When the upstream service answers, the call succeeds and the record is
  written with count 1 and the current time. When the upstream call fails, the store is
  left as it was.
\<close>

theorem C3_window_reset:
  assumes "passes_validation uid data ctx"
    and "rateLimits st uid = Some d"
    and "dateNow e - lastReset d \<ge> oneHour"
  shows "take 2 (effects (generateWithGemini e st (Data data) ctx)) =
           [RateLimitGet uid, GenerateContent ServerKey (string_of (prompt data))]
       \<and> (generateContent e ServerKey (string_of (prompt data)) = Inr answer \<longrightarrow>
            result (generateWithGemini e st (Data data) ctx) =
              Inr \<lparr>response = answer, issued = newDate e\<rparr>
          \<and> rateLimits (store_after (generateWithGemini e st (Data data) ctx)) uid =
              Some \<lparr>count = 1, lastReset = dateNow e\<rparr>)
       \<and> (generateContent e ServerKey (string_of (prompt data)) = Inl m \<longrightarrow>
            store_after (generateWithGemini e st (Data data) ctx) = st)"
proof -
  from assms(2,3)
  have open_window: "\<forall>d. rateLimits st uid = Some d \<longrightarrow>
      \<not> (dateNow e - lastReset d < oneHour \<and> count d \<ge> 20)"
    by auto
  show ?thesis
  proof (cases "generateContent e ServerKey (string_of (prompt data))")
    case (Inl m')
    from callable_upstream_failed [OF assms(1) open_window Inl] Inl
    show ?thesis by simp
  next
    case (Inr answer')
    from callable_succeeded [OF assms(1) open_window Inr] assms(2,3) Inr
    show ?thesis by auto
  qed
qed

text \<open>
  A record with count 25 written at time 0 and a call one hour later, answered and
  failed.
\<close>

theorem C3_window_reset_witness:
  "take 2 (effects (generateWithGemini (world 3600000 hi) (record_of 25 0) (Data (ask hello)) by_alice)) =
     [RateLimitGet alice, GenerateContent ServerKey (lit ''Hello'')]
   \<and> result (generateWithGemini (world 3600000 hi) (record_of 25 0) (Data (ask hello)) by_alice) =
       Inr \<lparr>response = lit ''Hi'', issued = 3600002\<rparr>
   \<and> rateLimits (store_after
         (generateWithGemini (world 3600000 hi) (record_of 25 0) (Data (ask hello)) by_alice)) alice =
       Some \<lparr>count = 1, lastReset = 3600000\<rparr>
   \<and> store_after (generateWithGemini (world 3600000 boom) (record_of 25 0) (Data (ask hello)) by_alice) =
       record_of 25 0"
  using
    C3_window_reset [OF passes_validation_hello, where st = "record_of 25 0"
      and d = "\<lparr>count = 25, lastReset = 0\<rparr>" and e = "world 3600000 hi"
      and answer = "lit ''Hi''"]
    C3_window_reset [OF passes_validation_hello, where st = "record_of 25 0"
      and d = "\<lparr>count = 25, lastReset = 0\<rparr>" and e = "world 3600000 boom"
      and m = "Some (lit ''boom'')"]
  by (simp add: record_of_def world_def hi_def boom_def oneHour_def ask_def hello_def)

text \<open>
  Claim C3 as stated fails when the upstream call fails: the call is let through, but
  the record is not written; the store still holds count 25 and time 0.
\<close>

theorem C3_no_write_counterexample:
  "generateWithGemini (world 3600000 boom) (record_of 25 0) (Data (ask hello)) by_alice =
     \<lparr>result = Inl (HttpsError Internal (lit ''Failed to generate content.'')),
      store_after = record_of 25 0,
      effects = [RateLimitGet alice, GenerateContent ServerKey (lit ''Hello'')]\<rparr>
   \<and> rateLimits (record_of 25 0) alice = Some \<lparr>count = 25, lastReset = 0\<rparr>"
  using callable_upstream_failed [OF passes_validation_hello, of "record_of 25 0"
      "world 3600000 boom" "Some (lit ''boom'')"]
  by (simp add: record_of_def world_def boom_def oneHour_def ask_def hello_def
      generateWithGemini_catch_def message_includes_def lit_def)

section \<open>The two entry points (C4)\<close>




section \<open>The order of effects (C5)\<close>

text \<open>
  Claim C5, as amended. The effects of a call are a prefix of: read of the rate-limit
  record, upstream call, write of the rate-limit record, write of the log entry, in
  this order; a call that fails validation, or has no object for \<open>data\<close>, has no effect
  at all. The record is written only when the upstream call returned a text, and then
  after that call; the log entry likewise, after the record.
\<close>

theorem C5_effect_order:
  "(\<exists>uid doc entry.
      prefix (effects (generateWithGemini e st (Data data) ctx))
        [RateLimitGet uid, GenerateContent ServerKey (string_of (prompt data)),
         RateLimitSet uid doc, UsageLogAdd entry])
   \<and> ((\<forall>uid. \<not> passes_validation uid data ctx) \<longrightarrow>
        effects (generateWithGemini e st (Data data) ctx) = [])
   \<and> (\<forall>uid doc. RateLimitSet uid doc \<in> set (effects (generateWithGemini e st (Data data) ctx)) \<longrightarrow>
        (\<exists>answer entry.
           generateContent e ServerKey (string_of (prompt data)) = Inr answer
           \<and> effects (generateWithGemini e st (Data data) ctx) =
               [RateLimitGet uid, GenerateContent ServerKey (string_of (prompt data)),
                RateLimitSet uid doc, UsageLogAdd entry]))
   \<and> (\<forall>entry. UsageLogAdd entry \<in> set (effects (generateWithGemini e st (Data data) ctx)) \<longrightarrow>
        (\<exists>uid doc answer.
           generateContent e ServerKey (string_of (prompt data)) = Inr answer
           \<and> effects (generateWithGemini e st (Data data) ctx) =
               [RateLimitGet uid, GenerateContent ServerKey (string_of (prompt data)),
                RateLimitSet uid doc, UsageLogAdd entry]))
   \<and> effects (generateWithGemini e st DataNull ctx) = []
   \<and> effects (generateWithGemini e st DataUndefined ctx) = []"
proof -
  have effects_try: "effects (generateWithGemini e st cd ctx) =
      effects (generateWithGemini_try e st cd ctx)" for cd
    by (simp add: generateWithGemini_def Let_def split: sum.splits)
  have shape: "effects (generateWithGemini_try e st (Data data) ctx) = []
      \<or> (\<exists>uid. effects (generateWithGemini_try e st (Data data) ctx) = [RateLimitGet uid])
      \<or> (\<exists>uid m. generateContent e ServerKey (string_of (prompt data)) = Inl m
            \<and> effects (generateWithGemini_try e st (Data data) ctx) =
                [RateLimitGet uid, GenerateContent ServerKey (string_of (prompt data))])
      \<or> (\<exists>uid doc entry answer.
            generateContent e ServerKey (string_of (prompt data)) = Inr answer
            \<and> effects (generateWithGemini_try e st (Data data) ctx) =
                [RateLimitGet uid, GenerateContent ServerKey (string_of (prompt data)),
                 RateLimitSet uid doc, UsageLogAdd entry])"
    by (auto simp: generateWithGemini_try_def Let_def split: option.splits sum.splits)
  have invalid: "effects (generateWithGemini_try e st (Data data) ctx) = []"
    if "\<forall>uid. \<not> passes_validation uid data ctx"
    using that
    by (auto simp: generateWithGemini_try_def passes_validation_def split: option.splits)
  have no_object: "effects (generateWithGemini_try e st DataNull ctx) = []"
    "effects (generateWithGemini_try e st DataUndefined ctx) = []"
    by (simp_all add: generateWithGemini_try_def split: option.splits)
  from shape invalid no_object show ?thesis
    unfolding effects_try by (elim disjE exE conjE) auto
qed

text \<open>
  A call without a usable prompt, an answered call, and a call that failed upstream.
\<close>

theorem C5_effect_order_witness:
  "effects (generateWithGemini (world 1000 hi) empty_store (Data (ask JNull)) by_alice) = []
   \<and> (\<exists>entry. effects (generateWithGemini (world 1000 hi) empty_store (Data (ask hello)) by_alice) =
        [RateLimitGet alice, GenerateContent ServerKey (lit ''Hello''),
         RateLimitSet alice \<lparr>count = 1, lastReset = 1000\<rparr>, UsageLogAdd entry])
   \<and> RateLimitSet alice \<lparr>count = 1, lastReset = 1000\<rparr>
       \<notin> set (effects (generateWithGemini (world 1000 boom) empty_store (Data (ask hello))
             by_alice))"
proof -
  have "RateLimitSet alice \<lparr>count = 1, lastReset = 1000\<rparr>
      \<in> set (effects (generateWithGemini (world 1000 hi) empty_store (Data (ask hello)) by_alice))"
    using callable_succeeded [OF passes_validation_hello, of empty_store "world 1000 hi"
        "lit ''Hi''"]
    by (auto simp: world_def hi_def empty_store_def)
  moreover have "\<forall>uid. \<not> passes_validation uid (ask JNull) by_alice"
    by (simp add: passes_validation_def ask_def blank_or_not_string_def)
  moreover have "generateContent (world 1000 boom) ServerKey (string_of (prompt (ask hello)))
      = Inl (Some (lit ''boom''))"
    by (simp add: world_def boom_def)
  ultimately show ?thesis
    using C5_effect_order [of "world 1000 hi" empty_store "ask JNull" by_alice]
      C5_effect_order [of "world 1000 hi" empty_store "ask hello" by_alice]
      C5_effect_order [of "world 1000 boom" empty_store "ask hello" by_alice]
    by (auto simp: ask_def hello_def)
qed

text \<open>
  Claim C5 as stated fails: in an answered call the record is written after the
  upstream call, not before.
\<close>

theorem C5_write_after_upstream_counterexample:
  "effects (generateWithGemini (world 1000 hi) empty_store (Data (ask hello)) by_alice) =
     [RateLimitGet alice, GenerateContent ServerKey (lit ''Hello''),
      RateLimitSet alice \<lparr>count = 1, lastReset = 1000\<rparr>,
      UsageLogAdd \<lparr>userId = alice, timestamp = 1001, promptLength = 5, responseLength = 2,
                   model = ''gemini-pro''\<rparr>]"
  using callable_succeeded [OF passes_validation_hello, of empty_store "world 1000 hi"
      "lit ''Hi''"]
  by (auto simp: world_def hi_def empty_store_def ask_def hello_def lit_def)

section \<open>Prompt validation (C6)\<close>

text \<open>
  When \<open>data\<close> is an object, validation does what claim C6 says. When the prompt is
  absent, not a string, empty after trimming, or longer than 8000 code units, the call
  fails, the store is unchanged and nothing was contacted: no upstream call, no log
  entry; for a call that carries an identity the failure is \<open>invalid-argument\<close>, with
  the message that the prompt is required in the first three cases and that it is too
  long in the last. A prompt of exactly 8000 code units that is not blank passes
  validation: the handler goes on to read the rate-limit record, and with no record and
  an answering upstream service the call succeeds. (A call without an identity fails
  with \<open>unauthenticated\<close> before its prompt is looked at.)
\<close>

lemma prompt_validation_of_object:
  "((\<forall>s. prompt data \<noteq> JString s)
      \<or> (\<exists>s. prompt data = JString s \<and> (trim s = [] \<or> length s > 8000)) \<longrightarrow>
      isl (result (generateWithGemini e st (Data data) ctx))
      \<and> store_after (generateWithGemini e st (Data data) ctx) = st
      \<and> effects (generateWithGemini e st (Data data) ctx) = []
      \<and> (auth ctx = Some uid \<longrightarrow>
           thrown_code (result (generateWithGemini e st (Data data) ctx)) = Some InvalidArgument))
   \<and> (auth ctx = Some uid
      \<and> ((\<forall>s. prompt data \<noteq> JString s) \<or> (\<exists>s. prompt data = JString s \<and> trim s = [])) \<longrightarrow>
      generateWithGemini e st (Data data) ctx =
        \<lparr>result = Inl (HttpsError InvalidArgument
            (lit ''Prompt is required and must be a non-empty string.'')),
         store_after = st, effects = []\<rparr>)
   \<and> (auth ctx = Some uid \<and> prompt data = JString s \<and> trim s \<noteq> [] \<and> length s > 8000 \<longrightarrow>
      generateWithGemini e st (Data data) ctx =
        \<lparr>result = Inl (HttpsError InvalidArgument
            (lit ''Prompt is too long. Maximum 8000 characters allowed.'')),
         store_after = st, effects = []\<rparr>)
   \<and> (auth ctx = Some uid \<and> prompt data = JString s \<and> trim s \<noteq> [] \<and> length s = 8000 \<longrightarrow>
      take 1 (effects (generateWithGemini e st (Data data) ctx)) = [RateLimitGet uid]
      \<and> (rateLimits st uid = None \<and> generateContent e ServerKey s = Inr answer \<longrightarrow>
           result (generateWithGemini e st (Data data) ctx) =
             Inr \<lparr>response = answer, issued = newDate e\<rparr>))"
proof -
  have rejected: "isl (result (generateWithGemini e st (Data data) ctx))
      \<and> store_after (generateWithGemini e st (Data data) ctx) = st
      \<and> effects (generateWithGemini e st (Data data) ctx) = []
      \<and> (auth ctx = Some uid \<longrightarrow>
           thrown_code (result (generateWithGemini e st (Data data) ctx)) = Some InvalidArgument)"
    if "blank_or_not_string (prompt data) \<or> length (string_of (prompt data)) > 8000"
    using that
    by (cases "auth ctx")
      (auto simp: generateWithGemini_def generateWithGemini_try_def catch_thrown)
  have required: "generateWithGemini e st (Data data) ctx =
        \<lparr>result = Inl (HttpsError InvalidArgument
            (lit ''Prompt is required and must be a non-empty string.'')),
         store_after = st, effects = []\<rparr>"
    if "auth ctx = Some uid" "blank_or_not_string (prompt data)"
    using that by (simp add: callable_prompt_required_iff)
  have too_long: "generateWithGemini e st (Data data) ctx =
        \<lparr>result = Inl (HttpsError InvalidArgument
            (lit ''Prompt is too long. Maximum 8000 characters allowed.'')),
         store_after = st, effects = []\<rparr>"
    if "auth ctx = Some uid" "\<not> blank_or_not_string (prompt data)"
      "length (string_of (prompt data)) > 8000"
    using that
    by (simp add: generateWithGemini_def generateWithGemini_try_def catch_thrown)
  have accepted: "take 1 (effects (generateWithGemini e st (Data data) ctx)) = [RateLimitGet uid]
      \<and> (rateLimits st uid = None \<and> generateContent e ServerKey s = Inr answer \<longrightarrow>
           result (generateWithGemini e st (Data data) ctx) =
             Inr \<lparr>response = answer, issued = newDate e\<rparr>)"
    if "auth ctx = Some uid" "prompt data = JString s" "trim s \<noteq> []" "length s = 8000"
    using that
    by (auto simp: generateWithGemini_def generateWithGemini_try_def Let_def
        blank_or_not_string_iff split: sum.splits)
  show ?thesis
    using rejected required too_long accepted
    by (auto simp: blank_or_not_string_iff)
qed

text \<open>
  A missing prompt, a prompt of 8001 letters and a prompt of 8000 letters from
  \<open>alice\<close>, and a missing prompt from nobody.
\<close>

lemma prompt_validation_examples:
  "generateWithGemini (world 1000 hi) empty_store (Data (ask JUndefined)) by_alice =
     \<lparr>result = Inl (HttpsError InvalidArgument
         (lit ''Prompt is required and must be a non-empty string.'')),
      store_after = empty_store, effects = []\<rparr>
   \<and> generateWithGemini (world 1000 hi) empty_store (Data (ask long_prompt)) by_alice =
     \<lparr>result = Inl (HttpsError InvalidArgument
         (lit ''Prompt is too long. Maximum 8000 characters allowed.'')),
      store_after = empty_store, effects = []\<rparr>
   \<and> result (generateWithGemini (world 1000 hi) empty_store
         (Data (ask (JString (replicate 8000 0x61)))) by_alice) =
       Inr \<lparr>response = lit ''Hi'', issued = 1002\<rparr>
   \<and> effects (generateWithGemini (world 1000 hi) empty_store (Data (ask JUndefined)) \<lparr>auth = None\<rparr>)
       = []"
  using
    prompt_validation_of_object [where ctx = by_alice and uid = alice and data = "ask JUndefined"
      and e = "world 1000 hi" and st = empty_store]
    prompt_validation_of_object [where ctx = by_alice and uid = alice and data = "ask long_prompt"
      and s = "replicate 8001 0x61" and e = "world 1000 hi" and st = empty_store]
    prompt_validation_of_object [where ctx = by_alice and uid = alice
      and data = "ask (JString (replicate 8000 0x61))" and s = "replicate 8000 0x61"
      and e = "world 1000 hi" and st = empty_store and answer = "lit ''Hi''"]
    prompt_validation_of_object [where ctx = "\<lparr>auth = None\<rparr>" and data = "ask JUndefined"
      and e = "world 1000 hi" and st = empty_store]
  by (simp add: by_alice_def ask_def long_prompt_def world_def hi_def empty_store_def trim_def
      isWhiteSpace_def)

text \<open>
  Claim C6 does not hold for a call without an object: when \<open>data\<close> is \<open>null\<close> (the
  prompt is absent) and the caller is identified, reading \<open>prompt\<close> throws inside the
  \<open>try\<close> block and the call fails with \<open>internal\<close>, not \<open>invalid-argument\<close>.
\<close>

theorem C6_null_data_internal:
  "generateWithGemini (world 1000 hi) empty_store DataNull by_alice =
     \<lparr>result = Inl (HttpsError Internal (lit ''Failed to generate content.'')),
      store_after = empty_store, effects = []\<rparr>"
  using callable_no_object [of by_alice alice DataNull "world 1000 hi" empty_store]
  by (simp add: by_alice_def)

section \<open>Empty upstream text (C7)\<close>

text \<open>
  The HTTP function has no check of the generated text either: an empty text is
  answered 200.
\<close>

lemma http_empty_text_example:
  "generateWithGeminiHttp (world 1000 (Inr [])) empty_store (post hello) =
     \<lparr>result = \<lparr>status = 200, sent = GenerationJson [] 1002\<rparr>, store_after = empty_store,
      effects = [VerifyIdToken (JString (lit ''token'')),
                 GenerateContent ServerKey (lit ''Hello'')]\<rparr>"
  by (simp add: generateWithGeminiHttp_def post_def ask_def hello_def world_def
      blank_or_not_string_def trim_def isWhiteSpace_def lit_def)

text \<open>
  Claim C7 does not hold on the callable, which has no check of the generated text: when
  the upstream service returns the empty text, the call succeeds with an empty
  response, and the call is counted and logged. (\<open>/generate\<close> has the check, see
  \<open>generate_empty_text\<close>.)
\<close>

theorem C7_empty_text_succeeds:
  "generateWithGemini (world 1000 (Inr [])) empty_store (Data (ask hello)) by_alice =
     \<lparr>result = Inr \<lparr>response = [], issued = 1002\<rparr>,
      store_after = \<lparr>rateLimits = [alice \<mapsto> \<lparr>count = 1, lastReset = 1000\<rparr>],
                     usage_logs = [\<lparr>userId = alice, timestamp = 1001, promptLength = 5,
                                    responseLength = 0, model = ''gemini-pro''\<rparr>]\<rparr>,
      effects = [RateLimitGet alice, GenerateContent ServerKey (lit ''Hello''),
                 RateLimitSet alice \<lparr>count = 1, lastReset = 1000\<rparr>,
                 UsageLogAdd \<lparr>userId = alice, timestamp = 1001, promptLength = 5,
                              responseLength = 0, model = ''gemini-pro''\<rparr>]\<rparr>"
  using callable_succeeded [OF passes_validation_hello, of empty_store "world 1000 (Inr [])" "[]"]
  by (auto simp: world_def empty_store_def ask_def hello_def lit_def)

section \<open>The retention sweep (C8)\<close>

text \<open>
  Claim C8. A sweep keeps every entry that is not older than thirty days, in place and
  unchanged: what remains is a subsequence of the log entries, with all such entries. It
  deletes at most 500 entries, and leaves the rate-limit records as they were. On a
  store without entries older than thirty days a sweep changes nothing, and neither
  does a second sweep right after it.
\<close>

theorem C8_retention_sweep:
  "filter (\<lambda>entry. \<not> expired e entry) (usage_logs (store_after (cleanupLogs e st))) =
     filter (\<lambda>entry. \<not> expired e entry) (usage_logs st)
   \<and> subseq (usage_logs (store_after (cleanupLogs e st))) (usage_logs st)
   \<and> length (usage_logs st) \<le> length (usage_logs (store_after (cleanupLogs e st))) + 500
   \<and> rateLimits (store_after (cleanupLogs e st)) = rateLimits st
   \<and> ((\<forall>entry \<in> set (usage_logs st). \<not> expired e' entry) \<and> newDate e \<le> newDate e' \<longrightarrow>
        store_after (cleanupLogs e st) = st
      \<and> store_after (cleanupLogs e' (store_after (cleanupLogs e st))) = st)"
proof (intro conjI impI)
  let ?logs = "usage_logs st"
  let ?refs = "oldLogs (thirtyDaysAgo (newDate e)) ?logs"
  have after: "usage_logs (store_after (cleanupLogs e st)) = nths ?logs {i. i \<notin> set ?refs}"
    by (simp add: cleanupLogs_def Let_def batch_delete_def)
  have "\<forall>i < length ?logs. \<not> expired e (?logs ! i) \<longrightarrow> i \<in> {i. i \<notin> set ?refs}"
    using oldLogs_set [of "thirtyDaysAgo (newDate e)" ?logs] by (auto simp: expired_def)
  then show "filter (\<lambda>entry. \<not> expired e entry) (usage_logs (store_after (cleanupLogs e st))) =
     filter (\<lambda>entry. \<not> expired e entry) ?logs"
    unfolding after by (rule filter_nths_keep)
  show "subseq (usage_logs (store_after (cleanupLogs e st))) ?logs"
    unfolding after by (auto simp: subseq_conv_nths)
  have "length (nths ?logs {i. i \<notin> set ?refs}) + length ?refs = length ?logs"
    using oldLogs_set [of "thirtyDaysAgo (newDate e)" ?logs]
    by (intro length_nths_removed oldLogs_distinct) auto
  with oldLogs_length [of "thirtyDaysAgo (newDate e)" ?logs]
  show "length ?logs \<le> length (usage_logs (store_after (cleanupLogs e st))) + 500"
    unfolding after by simp
  show "rateLimits (store_after (cleanupLogs e st)) = rateLimits st"
    by (simp add: cleanupLogs_def Let_def)
next
  assume clean: "(\<forall>entry \<in> set (usage_logs st). \<not> expired e' entry) \<and> newDate e \<le> newDate e'"
  have noop: "store_after (cleanupLogs x st) = st"
    if "\<forall>entry \<in> set (usage_logs st). \<not> expired x entry" for x
  proof -
    from that have "filter (\<lambda>i. timestamp (usage_logs st ! i) < thirtyDaysAgo (newDate x))
        [0..<length (usage_logs st)] = []"
      by (auto simp: expired_def filter_empty_conv)
    then have "oldLogs (thirtyDaysAgo (newDate x)) (usage_logs st) = []"
      by (simp add: oldLogs_def)
    then show ?thesis
      by (simp add: cleanupLogs_def Let_def batch_delete_def nths_all)
  qed
  from clean have "\<forall>entry \<in> set (usage_logs st). \<not> expired e entry"
    by (auto simp: expired_def thirtyDaysAgo_def)
  then show first: "store_after (cleanupLogs e st) = st"
    by (rule noop)
  from clean show "store_after (cleanupLogs e' (store_after (cleanupLogs e st))) = st"
    unfolding first by (intro noop) simp
qed

text \<open>
  Two sweeps, one millisecond apart, on a store whose only entry is recent.
\<close>

theorem C8_retention_sweep_witness:
  "store_after (cleanupLogs (world 3000000000 hi) (logged [2999999999])) = logged [2999999999]
   \<and> store_after (cleanupLogs (world 3000000001 hi)
        (store_after (cleanupLogs (world 3000000000 hi) (logged [2999999999])))) =
       logged [2999999999]"
proof -
  have "(\<forall>entry \<in> set (usage_logs (logged [2999999999])).
          \<not> expired (world 3000000001 hi) entry)
      \<and> newDate (world 3000000000 hi) \<le> newDate (world 3000000001 hi)"
    by (simp add: expired_def thirtyDaysAgo_def world_def logged_def log_at_def)
  with C8_retention_sweep [where e = "world 3000000000 hi" and e' = "world 3000000001 hi"
      and st = "logged [2999999999]"]
  show ?thesis by blast
qed

section \<open>The HTTP function (C9)\<close>

text \<open>
  Claim C9, as amended. For a POST request to \<open>generateWithGeminiHttp\<close> whose token is
  verified and whose prompt is a string that is not blank (not empty after trimming),
  the prompt is forwarded to the upstream service whatever its length: the effects are
  the verification of the token and the upstream call, the store is unchanged (no read
  or write of a rate-limit record, no log entry), and the response is 200 with the text,
  or 500 when the upstream call fails. The callable differs: on the same prompt from an
  identified caller it rejects a prompt longer than 8000 code units, and otherwise reads
  the rate-limit record first.
\<close>

theorem C9_http_function:
  assumes "req_method req = ''POST''"
    and "verifyIdToken e (idToken (body req)) = Inr token"
    and "prompt (body req) = JString p"
    and "trim p \<noteq> []"
  shows "effects (generateWithGeminiHttp e st req) =
           [VerifyIdToken (idToken (body req)), GenerateContent ServerKey p]
       \<and> store_after (generateWithGeminiHttp e st req) = st
       \<and> result (generateWithGeminiHttp e st req) =
           (case generateContent e ServerKey p of
              Inl m \<Rightarrow> \<lparr>status = 500, sent = ErrorJson (lit ''Internal server error'') None\<rparr>
            | Inr answer \<Rightarrow> \<lparr>status = 200, sent = GenerationJson answer (newDate e)\<rparr>)
       \<and> (auth ctx = Some uid \<and> prompt data = JString p \<longrightarrow>
            (if length p > 8000
             then generateWithGemini e st (Data data) ctx =
                    \<lparr>result = Inl (HttpsError InvalidArgument
                        (lit ''Prompt is too long. Maximum 8000 characters allowed.'')),
                     store_after = st, effects = []\<rparr>
             else take 1 (effects (generateWithGemini e st (Data data) ctx)) = [RateLimitGet uid]))"
proof -
  from assms(3,4) have valid: "\<not> blank_or_not_string (prompt (body req))"
    by (simp add: blank_or_not_string_iff)
  from assms(1) have post: "req_method req \<noteq> ''OPTIONS''"
    by simp
  have http: "generateWithGeminiHttp e st req =
      \<lparr>result = (case generateContent e ServerKey p of
            Inl m \<Rightarrow> \<lparr>status = 500, sent = ErrorJson (lit ''Internal server error'') None\<rparr>
          | Inr answer \<Rightarrow> \<lparr>status = 200, sent = GenerationJson answer (newDate e)\<rparr>),
       store_after = st,
       effects = [VerifyIdToken (idToken (body req)), GenerateContent ServerKey p]\<rparr>"
    using assms(1,2,3) valid post
    by (simp add: generateWithGeminiHttp_def split: sum.splits)
  have callable: "auth ctx = Some uid \<and> prompt data = JString p \<longrightarrow>
      (if length p > 8000
       then generateWithGemini e st (Data data) ctx =
              \<lparr>result = Inl (HttpsError InvalidArgument
                  (lit ''Prompt is too long. Maximum 8000 characters allowed.'')),
               store_after = st, effects = []\<rparr>
       else take 1 (effects (generateWithGemini e st (Data data) ctx)) = [RateLimitGet uid])"
    using assms(4)
    by (auto simp: generateWithGemini_def generateWithGemini_try_def Let_def
        blank_or_not_string_iff catch_thrown split: sum.splits)
  from http callable show ?thesis
    by simp
qed

text \<open>
  A request with a prompt of 8001 letters.
\<close>

theorem C9_http_function_witness:
  "effects (generateWithGeminiHttp (world 1000 hi) empty_store (post long_prompt)) =
     [VerifyIdToken (JString (lit ''token'')), GenerateContent ServerKey (replicate 8001 0x61)]
   \<and> store_after (generateWithGeminiHttp (world 1000 hi) empty_store (post long_prompt)) =
       empty_store
   \<and> result (generateWithGeminiHttp (world 1000 hi) empty_store (post long_prompt)) =
       \<lparr>status = 200, sent = GenerationJson (lit ''Hi'') 1002\<rparr>
   \<and> generateWithGemini (world 1000 hi) empty_store (Data (ask long_prompt)) by_alice =
       \<lparr>result = Inl (HttpsError InvalidArgument
           (lit ''Prompt is too long. Maximum 8000 characters allowed.'')),
        store_after = empty_store, effects = []\<rparr>"
  using C9_http_function [where req = "post long_prompt" and e = "world 1000 hi"
      and token = alice and p = "replicate 8001 0x61" and st = empty_store
      and ctx = by_alice and uid = alice and data = "ask long_prompt"]
  by (simp add: post_def ask_def long_prompt_def world_def hi_def by_alice_def trim_def
      isWhiteSpace_def)

text \<open>
  Claim C9 as stated fails for a prompt that is not empty but blank: a single space is
  answered 400 and not forwarded.
\<close>

theorem C9_blank_prompt_counterexample:
  "generateWithGeminiHttp (world 1000 hi) empty_store (post (JString [0x20])) =
     \<lparr>result = \<lparr>status = 400, sent = ErrorJson (lit ''Invalid prompt'') None\<rparr>,
      store_after = empty_store, effects = [VerifyIdToken (JString (lit ''token''))]\<rparr>"
  by (simp add: generateWithGeminiHttp_def post_def ask_def world_def blank_or_not_string_def
      trim_def isWhiteSpace_def)

section \<open>The health check (C10)\<close>




end
